theory Spec2Isabelle
  imports Main "HOL-Library.Finite_Map" "HOL-Library.Sublist" "HOL-Library.Word"
begin

section \<open>Data model of package blobformat\<close>

text \<open>
  The store is a Go \<^verbatim>\<open>map[string]interface{}\<close>. A value of type
  \<^verbatim>\<open>interface{}\<close> is modelled by its dynamic type: the types that
  \<^verbatim>\<open>encoding/json\<close> produces (string, float64, bool, nil, slice, map) and
  \<^verbatim>\<open>int64\<close>, which \<^verbatim>\<open>touchUpdated\<close> stores. A float64 is carried as its
  64-bit pattern: the package only copies it. Go maps are finite, have unique keys and no
  order, so they are finite maps. \<^verbatim>\<open>Load\<close> (JSON decoding) and \<^verbatim>\<open>Updated\<close>
  (a conversion from float64) are left out.
\<close>

datatype val =
    VString string
  | VFloat64 "64 word"
  | VInt64 "64 word"
  | VBool bool
  | VNil
  | VSlice "val list"
  | VMap "(string, val) fmap"

type_synonym Blobs = "(string, val) fmap"

record Blob =
  Name :: string
  B :: "(string, val) fmap"

text \<open>
  Panics and returned errors are values. The first four constructors are the panics of the
  package (\<^verbatim>\<open>get\<close>, \<^verbatim>\<open>Set\<close> and a failed unchecked type assertion); the others
  are the errors it returns, one constructor for each \<^verbatim>\<open>errors.Errorf\<close> or
  \<^verbatim>\<open>errors.Wrap\<close> site. An error of a library is carried as its message.
\<close>

datatype error =
    PanicNotFound string
  | PanicFormat string
  | PanicProtectedKey string
  | PanicTypeAssertion
  | ErrUriWouldntParse string
  | ErrTwoFactorParse string
  | ErrNotTotp
  | ErrGenerateCode string
  | ErrSliceFormat string
  | ErrSliceElemFormat string nat
  | ErrNoSnapshots
  | ErrSnapshotsFormat
  | ErrSnapshotIndex int int
  | ErrSnapshotFormat int

definition keyUser :: string where "keyUser = ''user''"
definition keyPass :: string where "keyPass = ''pass''"
definition keyTwoFactor :: string where "keyTwoFactor = ''twofactor''"
definition keyNotes :: string where "keyNotes = ''notes''"
definition keyLabels :: string where "keyLabels = ''labels''"
definition keyUpdated :: string where "keyUpdated = ''updated''"
definition keySnapshots :: string where "keySnapshots = ''snapshots''"

definition protectedKeys :: "string list" where
  "protectedKeys = [keyTwoFactor, keyNotes, keyUpdated, keyLabels, keySnapshots]"

section \<open>Functions of the Go standard library\<close>

text \<open>
  Strings are byte lists. \<^verbatim>\<open>strings.ToLower\<close> is modelled on ASCII: the bytes
  \<^verbatim>\<open>A\<close> to \<^verbatim>\<open>Z\<close> are shifted by 32 and every other byte is kept. On an
  ASCII string this is what Go computes. On other strings Go lower-cases Unicode runes and
  the model does not; the five protected keys are ASCII, and no rune outside ASCII
  lower-cases to one of their letters.
\<close>

definition toLowerByte :: "char \<Rightarrow> char" where
  "toLowerByte c =
     (let n = (of_char c :: nat) in if 65 \<le> n \<and> n \<le> 90 then char_of (n + 32) else c)"

definition ToLower :: "string \<Rightarrow> string" where
  "ToLower s = map toLowerByte s"

text \<open>\<^verbatim>\<open>strings.HasPrefix(s, prefix)\<close>.\<close>

definition HasPrefix :: "string \<Rightarrow> string \<Rightarrow> bool" where
  "HasPrefix s p = (length p \<le> length s \<and> take (length p) s = p)"

text \<open>
  \<^verbatim>\<open>strings.Split(s, sep)\<close> for a separator of one byte: the substrings between the
  separators, so one more than there are separators; the empty string gives one empty
  substring.
\<close>

fun Split :: "string \<Rightarrow> char \<Rightarrow> string list" where
  "Split [] sep = [[]]"
| "Split (c # cs) sep =
     (if c = sep then [] # Split cs sep
      else (case Split cs sep of
              [] \<Rightarrow> [[c]]
            | x # xs \<Rightarrow> (c # x) # xs))"

text \<open>\<^verbatim>\<open>fmt.Sprintf("%d", n)\<close> for a natural number.\<close>

function showNat :: "nat \<Rightarrow> string" where
  "showNat n =
     (if n < 10 then [char_of (48 + n)]
      else showNat (n div 10) @ [char_of (48 + n mod 10)])"
  by pat_completeness auto
termination
  by (relation "measure id") auto

declare showNat.simps [simp del]

section \<open>Libraries outside the repository\<close>

text \<open>
  The one-time-password library (\<^verbatim>\<open>github.com/pquerna/otp\<close>) and the URL escaping of
  \<^verbatim>\<open>net/url\<close> are parameters of the model. A key of the library answers
  \<^verbatim>\<open>Type()\<close> and \<^verbatim>\<open>Secret()\<close>.
\<close>

record Key =
  Type :: string
  Secret :: string

record extern =
  NewKeyFromURL :: "string \<Rightarrow> string + Key"
  GenerateCode :: "string \<Rightarrow> 64 word \<Rightarrow> string + string"
  PathEscape :: "string \<Rightarrow> string"
  Encode :: "(string \<times> string) list \<Rightarrow> string"

text \<open>
  Modelled from the spec: the fuzzy matcher \<^verbatim>\<open>fuzzy.MatchFold\<close> of
  \<^verbatim>\<open>github.com/lithammer/fuzzysearch\<close> is not among the sources. The spec says of
  it: every character of the query segment must appear, in order, within the candidate
  segment, case-folded. \<open>match\<close> scans the target from left to right for each
  character of the source in turn. The model compares bytes and folds \<^verbatim>\<open>A\<close> to
  \<^verbatim>\<open>Z\<close>: it stands for the matcher on ASCII strings, where a byte is a character,
  and says nothing of other strings.
\<close>

fun match :: "string \<Rightarrow> string \<Rightarrow> bool" where
  "match [] target = True"
| "match (r1 # source) [] = False"
| "match (r1 # source) (r2 # target) =
     (if r1 = r2 then match source target else match (r1 # source) target)"


section \<open>Reading the store\<close>




text \<open>\<^verbatim>\<open>get\<close> panics when the name is not found or the entry is not a map.\<close>

definition get :: "Blobs \<Rightarrow> string \<Rightarrow> error + (string, val) fmap" where
  "get b name =
     (case fmlookup b name of
        None \<Rightarrow> Inl (PanicNotFound name)
      | Some obj \<Rightarrow>
          (case obj of
             VMap mpintf \<Rightarrow> Inr mpintf
           | _ \<Rightarrow> Inl (PanicFormat name)))"

definition Get :: "Blobs \<Rightarrow> string \<Rightarrow> error + Blob" where
  "Get b name =
     (case get b name of
        Inl e \<Rightarrow> Inl e
      | Inr obj \<Rightarrow> Inr \<lparr>Name = name, B = obj\<rparr>)"

text \<open>
  \<^verbatim>\<open>User\<close> and \<^verbatim>\<open>Pass\<close> look the key up with the two-value form and then assert
  the type with the one-value form \<^verbatim>\<open>v.(string)\<close>, which panics on any other
  dynamic type, nil included.
\<close>

definition assertString :: "val \<Rightarrow> error + string" where
  "assertString v = (case v of VString s \<Rightarrow> Inr s | _ \<Rightarrow> Inl PanicTypeAssertion)"

definition User :: "Blob \<Rightarrow> error + string" where
  "User b =
     (case fmlookup (B b) keyUser of
        None \<Rightarrow> Inr ''''
      | Some user \<Rightarrow> assertString user)"

definition Pass :: "Blob \<Rightarrow> error + string" where
  "Pass b =
     (case fmlookup (B b) keyPass of
        None \<Rightarrow> Inr ''''
      | Some pass \<Rightarrow> assertString pass)"

text \<open>
  \<^verbatim>\<open>TwoFactor\<close> compares the stored value with nil, asserts a string, parses it and
  refuses a key whose type is not \<^verbatim>\<open>totp\<close>. \<open>now\<close> is the clock.
\<close>

definition TwoFactor :: "extern \<Rightarrow> 64 word \<Rightarrow> Blob \<Rightarrow> error + string" where
  "TwoFactor ext now b =
     (case fmlookup (B b) keyTwoFactor of
        None \<Rightarrow> Inr ''''
      | Some VNil \<Rightarrow> Inr ''''
      | Some twoFactorURIIntf \<Rightarrow>
          (case assertString twoFactorURIIntf of
             Inl e \<Rightarrow> Inl e
           | Inr twoFactorURI \<Rightarrow>
               (case NewKeyFromURL ext twoFactorURI of
                  Inl err \<Rightarrow> Inl (ErrTwoFactorParse err)
                | Inr key \<Rightarrow>
                    if Type key \<noteq> ''totp'' then Inl ErrNotTotp
                    else (case GenerateCode ext (Secret key) now of
                            Inl err \<Rightarrow> Inl (ErrGenerateCode err)
                          | Inr code \<Rightarrow> Inr code))))"

text \<open>
  \<^verbatim>\<open>getSlice\<close>: nil gives no list and no error; the value must be a slice and every
  element a string (two-value assertions, so errors and no panics).
\<close>

fun getSliceLoop :: "string \<Rightarrow> nat \<Rightarrow> val list \<Rightarrow> string list \<Rightarrow> error + string list" where
  "getSliceLoop keyname i [] out = Inr out"
| "getSliceLoop keyname i (intf # rest) out =
     (case intf of
        VString s \<Rightarrow> getSliceLoop keyname (Suc i) rest (out @ [s])
      | _ \<Rightarrow> Inl (ErrSliceElemFormat keyname i))"

definition getSlice :: "Blob \<Rightarrow> string \<Rightarrow> error + string list" where
  "getSlice b keyname =
     (case fmlookup (B b) keyname of
        None \<Rightarrow> Inr []
      | Some VNil \<Rightarrow> Inr []
      | Some (VSlice intfSlice) \<Rightarrow> getSliceLoop keyname 0 intfSlice []
      | Some _ \<Rightarrow> Inl (ErrSliceFormat keyname))"

definition Notes :: "Blob \<Rightarrow> error + string list" where
  "Notes b = getSlice b keyNotes"

definition Labels :: "Blob \<Rightarrow> error + string list" where
  "Labels b = getSlice b keyLabels"

text \<open>
  \<^verbatim>\<open>Snapshot\<close>: the index counts back from the end of the list. Go's
  \<^verbatim>\<open>int\<close> is an integer here; the list lengths are far below its range.
\<close>

definition Snapshot :: "Blob \<Rightarrow> int \<Rightarrow> error + Blob" where
  "Snapshot b index =
     (case fmlookup (B b) keySnapshots of
        None \<Rightarrow> Inl ErrNoSnapshots
      | Some VNil \<Rightarrow> Inl ErrNoSnapshots
      | Some (VSlice snaps) \<Rightarrow>
          if index < 0 \<or> index \<ge> int (length snaps)
          then Inl (ErrSnapshotIndex (int (length snaps)) index)
          else
            (let index = int (length snaps) - 1 - index in
             case snaps ! nat index of
               VMap snap \<Rightarrow> Inr \<lparr>Name = Name b @ '':snap'' @ showNat (nat index), B = snap\<rparr>
             | _ \<Rightarrow> Inl (ErrSnapshotFormat index))
      | Some _ \<Rightarrow> Inl ErrSnapshotsFormat)"

definition NSnapshots :: "Blob \<Rightarrow> error + int" where
  "NSnapshots b =
     (case fmlookup (B b) keySnapshots of
        None \<Rightarrow> Inr 0
      | Some VNil \<Rightarrow> Inr 0
      | Some (VSlice snaps) \<Rightarrow> Inr (int (length snaps))
      | Some _ \<Rightarrow> Inl ErrSnapshotsFormat)"

section \<open>The snapshot engine\<close>

text \<open>
  \<^verbatim>\<open>snapshot\<close> ranges over the fields, skips \<^verbatim>\<open>snapshots\<close> and copies a field
  when the type switch has a case for its dynamic type: string, float64, int64 and
  \<^verbatim>\<open>[]interface{}\<close>. Every case stores the value it read, so the clone is the
  field map filtered by \<open>switchCopies\<close>.
\<close>

definition switchCopies :: "val \<Rightarrow> bool" where
  "switchCopies v =
     (case v of
        VString val \<Rightarrow> True
      | VFloat64 val \<Rightarrow> True
      | VInt64 val \<Rightarrow> True
      | VSlice val \<Rightarrow> True
      | _ \<Rightarrow> False)"

definition snapshot :: "Blob \<Rightarrow> (string, val) fmap" where
  "snapshot b =
     fmfilter
       (\<lambda>k. if k = keySnapshots then False
            else (case fmlookup (B b) k of None \<Rightarrow> False | Some v \<Rightarrow> switchCopies v))
       (B b)"

text \<open>
  \<^verbatim>\<open>addSnapshot\<close>: an absent key gives a fresh empty list; a present key is asserted
  with the two-value form, which leaves the nil slice when the value is no slice. The new
  snapshot is appended and the list stored. The methods of \<^verbatim>\<open>Blob\<close> write through
  the map they hold, which is the entry of the store: they return the blob with the new
  map, and the setters put it back under the name.
\<close>

definition addSnapshot :: "Blob \<Rightarrow> Blob" where
  "addSnapshot b =
     (let snaps =
            (case fmlookup (B b) keySnapshots of
               None \<Rightarrow> []
             | Some snapsIntf \<Rightarrow> (case snapsIntf of VSlice xs \<Rightarrow> xs | _ \<Rightarrow> []));
          snaps = snaps @ [VMap (snapshot b)]
      in b\<lparr>B := fmupd keySnapshots (VSlice snaps) (B b)\<rparr>)"

definition touchUpdated :: "64 word \<Rightarrow> Blob \<Rightarrow> Blob" where
  "touchUpdated now b = b\<lparr>B := fmupd keyUpdated (VInt64 now) (B b)\<rparr>"

section \<open>The setters\<close>

text \<open>
  A setter returns the panic or error, if any, and the store as it is left. \<open>now\<close>
  is what \<^verbatim>\<open>time.Now().Unix()\<close> reads.
\<close>

definition Set :: "64 word \<Rightarrow> Blobs \<Rightarrow> string \<Rightarrow> string \<Rightarrow> string \<Rightarrow> error option \<times> Blobs" where
  "Set now b name key value =
     (case Get b name of
        Inl e \<Rightarrow> (Some e, b)
      | Inr blob \<Rightarrow>
          (let key = ToLower key in
           case find (\<lambda>p. key = p) protectedKeys of
             Some p \<Rightarrow> (Some (PanicProtectedKey p), b)
           | None \<Rightarrow>
               (let blob = addSnapshot blob;
                    blob = touchUpdated now blob;
                    blob = blob\<lparr>B := fmupd name (VString value) (B blob)\<rparr>
                in (None, fmupd name (VMap (B blob)) b))))"

definition SetTwofactor ::
  "extern \<Rightarrow> 64 word \<Rightarrow> Blobs \<Rightarrow> string \<Rightarrow> string \<Rightarrow> error option \<times> Blobs" where
  "SetTwofactor ext now b name uriOrKey =
     (case Get b name of
        Inl e \<Rightarrow> (Some e, b)
      | Inr blob \<Rightarrow>
          (let uri =
                 (if HasPrefix uriOrKey ''otpauth://'' then uriOrKey
                  else ''otpauth://totp/'' @ PathEscape ext (''upass:'' @ name) @ ''?''
                         @ Encode ext [(''secret'', uriOrKey)])
           in case NewKeyFromURL ext uri of
                Inl err \<Rightarrow> (Some (ErrUriWouldntParse err), b)
              | Inr key \<Rightarrow>
                  (let blob = addSnapshot blob;
                       blob = touchUpdated now blob;
                       blob = blob\<lparr>B := fmupd keyTwoFactor (VString uri) (B blob)\<rparr>
                   in (None, fmupd name (VMap (B blob)) b))))"

definition SetNotes :: "64 word \<Rightarrow> Blobs \<Rightarrow> string \<Rightarrow> string list \<Rightarrow> error option \<times> Blobs" where
  "SetNotes now b name notes =
     (case Get b name of
        Inl e \<Rightarrow> (Some e, b)
      | Inr blob \<Rightarrow>
          (let uglyConversion = map VString notes;
               blob = touchUpdated now blob;
               blob = blob\<lparr>B := fmupd keyNotes (VSlice uglyConversion) (B blob)\<rparr>
           in (None, fmupd name (VMap (B blob)) b)))"

definition SetLabels :: "64 word \<Rightarrow> Blobs \<Rightarrow> string \<Rightarrow> string list \<Rightarrow> error option \<times> Blobs" where
  "SetLabels now b name labels =
     (case Get b name of
        Inl e \<Rightarrow> (Some e, b)
      | Inr blob \<Rightarrow>
          (let uglyConversion = map VString labels;
               blob = touchUpdated now blob;
               blob = blob\<lparr>B := fmupd keyLabels (VSlice uglyConversion) (B blob)\<rparr>
           in (None, fmupd name (VMap (B blob)) b)))"

section \<open>The value kinds of the specification\<close>

text \<open>
  The specification names three kinds of value that a snapshot keeps: text, integer and
  text list. \<open>claimedKind\<close> follows these words, to be compared with the type switch
  \<open>switchCopies\<close> of the code. Both Go number types count as the integer kind: a
  number read from JSON is a float64.
\<close>

definition isString :: "val \<Rightarrow> bool" where
  "isString v = (case v of VString s \<Rightarrow> True | _ \<Rightarrow> False)"

definition claimedKind :: "val \<Rightarrow> bool" where
  "claimedKind v =
     (case v of
        VString s \<Rightarrow> True
      | VInt64 i \<Rightarrow> True
      | VFloat64 f \<Rightarrow> True
      | VSlice xs \<Rightarrow> list_all isString xs
      | _ \<Rightarrow> False)"

section \<open>The segments and letters of the specification\<close>

text \<open>
  The specification speaks of the segments of a name and of matching without regard to
  case. Both are stated here on their own, to be compared with \<open>Split\<close> and with the
  folding of \<open>MatchFold\<close>. \<open>Join\<close> is \<^verbatim>\<open>strings.Join\<close> for a separator of
  one byte: the string \<^verbatim>\<open>n1/n2/.../nk\<close> of the segments \<^verbatim>\<open>n1\<close> to \<^verbatim>\<open>nk\<close>.
  \<open>ascii\<close> says that every byte of a string is below 128, so that a byte is a
  character. \<open>sameLetter\<close> relates two bytes that are equal, or a letter \<^verbatim>\<open>A\<close> to
  \<^verbatim>\<open>Z\<close> and its lower-case form.
\<close>

fun Join :: "string list \<Rightarrow> char \<Rightarrow> string" where
  "Join [] sep = []"
| "Join [x] sep = x"
| "Join (x # y # ys) sep = x @ sep # Join (y # ys) sep"

definition ascii :: "string \<Rightarrow> bool" where
  "ascii s = list_all (\<lambda>c. (of_char c :: nat) < 128) s"


section \<open>Basic facts\<close>

lemmas key_defs =
  keyUser_def keyPass_def keyTwoFactor_def keyNotes_def keyLabels_def keyUpdated_def
  keySnapshots_def

lemma find_protected_Some: "x \<in> set xs \<Longrightarrow> find (\<lambda>p. x = p) xs = Some x"
  by (induction xs) auto

lemma find_protected_None: "x \<notin> set xs \<Longrightarrow> find (\<lambda>p. x = p) xs = None"
  by (induction xs) auto

lemma Get_entry:
  "fmlookup b name = Some (VMap m) \<Longrightarrow> Get b name = Inr \<lparr>Name = name, B = m\<rparr>"
  by (simp add: Get_def get_def)

lemma addSnapshot_lookup:
  "fmlookup (B (addSnapshot blob)) k =
     (if k = keySnapshots
      then Some (VSlice ((case fmlookup (B blob) keySnapshots of
                            Some (VSlice xs) \<Rightarrow> xs | _ \<Rightarrow> []) @ [VMap (snapshot blob)]))
      else fmlookup (B blob) k)"
  by (simp add: addSnapshot_def Let_def split: option.splits val.splits)

lemma touchUpdated_lookup:
  "fmlookup (B (touchUpdated now blob)) k =
     (if k = keyUpdated then Some (VInt64 now) else fmlookup (B blob) k)"
  by (simp add: touchUpdated_def)

text \<open>What a successful \<^verbatim>\<open>Set\<close> and a successful \<^verbatim>\<open>SetTwofactor\<close> leave.\<close>

lemma Set_success:
  assumes "fmlookup b name = Some (VMap m)"
    and "ToLower key \<notin> set protectedKeys"
  shows "Set now b name key str =
           (None,
            fmupd name
              (VMap (fmupd name (VString str)
                       (B (touchUpdated now (addSnapshot \<lparr>Name = name, B = m\<rparr>))))) b)"
  using assms by (simp add: Set_def Get_entry find_protected_None Let_def)

lemma SetTwofactor_success:
  assumes "fmlookup b name = Some (VMap m)"
    and "HasPrefix uri ''otpauth://''"
    and "NewKeyFromURL ext uri = Inr key"
  shows "SetTwofactor ext now b name uri =
           (None,
            fmupd name
              (VMap (fmupd keyTwoFactor (VString uri)
                       (B (touchUpdated now (addSnapshot \<lparr>Name = name, B = m\<rparr>))))) b)"
  using assms by (simp add: SetTwofactor_def Get_entry Let_def)

lemma getSliceLoop_strings:
  "getSliceLoop keyname i (map VString xs) out = Inr (out @ xs)"
  by (induction xs arbitrary: i out) simp_all

text \<open>The left-to-right scan decides the subsequence relation.\<close>

lemma match_subseq: "match source target \<longleftrightarrow> subseq source target"
  by (induction source target rule: match.induct) simp_all









lemma Split_not_Nil: "Split s sep \<noteq> []"
  by (induction s) (auto split: list.splits)

lemma Join_Cons_Cons: "Join ((c # x) # xs) sep = c # Join (x # xs) sep"
  by (cases xs) simp_all

lemma Join_Split: "Join (Split s sep) sep = s"
  by (induction s) (auto simp: Join_Cons_Cons Split_not_Nil split: list.splits)

lemma Split_sep_free: "list_all (\<lambda>x. sep \<notin> set x) (Split s sep)"
  by (induction s) (auto split: list.splits)

lemma Split_ascii: "ascii s \<Longrightarrow> list_all ascii (Split s sep)"
  by (induction s) (auto simp: ascii_def split: list.splits)

lemma length_Split: "length (Split s sep) = Suc (count_list s sep)"
  by (induction s) (auto simp: Split_not_Nil split: list.splits)

section \<open>The accessors User and Pass\<close>

text \<open>
  C10. \<^verbatim>\<open>User\<close> and \<^verbatim>\<open>Pass\<close> return the empty string when the field is absent and
  the text when the field holds a text; on a field that holds any other value (a number,
  a list, nil, ...) the unchecked type assertion panics, and neither an error nor a
  default is returned.
\<close>

theorem accessors_panic_on_non_text:
  "(fmlookup (B b) keyUser = None \<longrightarrow> User b = Inr '''') \<and>
   (\<forall>s. fmlookup (B b) keyUser = Some (VString s) \<longrightarrow> User b = Inr s) \<and>
   (\<forall>v. fmlookup (B b) keyUser = Some v \<and> (\<forall>s. v \<noteq> VString s) \<longrightarrow>
        User b = Inl PanicTypeAssertion) \<and>
   (fmlookup (B b) keyPass = None \<longrightarrow> Pass b = Inr '''') \<and>
   (\<forall>s. fmlookup (B b) keyPass = Some (VString s) \<longrightarrow> Pass b = Inr s) \<and>
   (\<forall>v. fmlookup (B b) keyPass = Some v \<and> (\<forall>s. v \<noteq> VString s) \<longrightarrow>
        Pass b = Inl PanicTypeAssertion)"
  by (auto simp: User_def Pass_def assertString_def split: val.splits)

theorem accessors_panic_on_non_text_witness:
  "User \<lparr>Name = ''e'', B = fmupd ''user'' (VInt64 1) (fmupd ''pass'' (VString ''p'') fmempty)\<rparr>
     = Inl PanicTypeAssertion \<and>
   Pass \<lparr>Name = ''e'', B = fmupd ''user'' (VInt64 1) (fmupd ''pass'' (VString ''p'') fmempty)\<rparr>
     = Inr ''p'' \<and>
   User \<lparr>Name = ''e'', B = fmupd ''pass'' VNil fmempty\<rparr> = Inr '''' \<and>
   Pass \<lparr>Name = ''e'', B = fmupd ''pass'' VNil fmempty\<rparr> = Inl PanicTypeAssertion"
  using
    accessors_panic_on_non_text
      [of "\<lparr>Name = ''e'', B = fmupd ''user'' (VInt64 1) (fmupd ''pass'' (VString ''p'') fmempty)\<rparr>"]
    accessors_panic_on_non_text [of "\<lparr>Name = ''e'', B = fmupd ''pass'' VNil fmempty\<rparr>"]
  by (simp add: key_defs)

section \<open>Find\<close>



section \<open>The snapshot copy\<close>

text \<open>
  C4, as amended. The copy made by \<^verbatim>\<open>snapshot\<close> never has a \<^verbatim>\<open>snapshots\<close> field.
  Of the other fields it has exactly those whose value is a text, a number (int64 or
  float64) or a list, whatever the elements of the list are, each with the value the entry
  holds; a field that holds a boolean, nil or an object is dropped and nothing is
  reported.
\<close>

theorem snapshot_copies_by_dynamic_type:
  "fmlookup (snapshot b) keySnapshots = None \<and>
   (k \<noteq> keySnapshots \<longrightarrow>
      fmlookup (snapshot b) k =
        (case fmlookup (B b) k of
           None \<Rightarrow> None
         | Some (VString s) \<Rightarrow> Some (VString s)
         | Some (VFloat64 f) \<Rightarrow> Some (VFloat64 f)
         | Some (VInt64 i) \<Rightarrow> Some (VInt64 i)
         | Some (VSlice xs) \<Rightarrow> Some (VSlice xs)
         | Some (VBool x) \<Rightarrow> None
         | Some VNil \<Rightarrow> None
         | Some (VMap x) \<Rightarrow> None))"
  by (simp add: snapshot_def switchCopies_def split: option.splits val.splits)

theorem snapshot_copies_by_dynamic_type_witness:
  "fmlookup (snapshot \<lparr>Name = ''e'',
       B = fmupd ''user'' (VString ''u'') (fmupd ''updated'' (VFloat64 9)
             (fmupd ''labels'' (VSlice [VString ''l'']) (fmupd ''flag'' (VBool True)
               (fmupd ''snapshots'' (VSlice []) fmempty))))\<rparr>) ''snapshots'' = None \<and>
   fmlookup (snapshot \<lparr>Name = ''e'',
       B = fmupd ''user'' (VString ''u'') (fmupd ''updated'' (VFloat64 9)
             (fmupd ''labels'' (VSlice [VString ''l'']) (fmupd ''flag'' (VBool True)
               (fmupd ''snapshots'' (VSlice []) fmempty))))\<rparr>) ''user'' = Some (VString ''u'') \<and>
   fmlookup (snapshot \<lparr>Name = ''e'',
       B = fmupd ''user'' (VString ''u'') (fmupd ''updated'' (VFloat64 9)
             (fmupd ''labels'' (VSlice [VString ''l'']) (fmupd ''flag'' (VBool True)
               (fmupd ''snapshots'' (VSlice []) fmempty))))\<rparr>) ''labels''
     = Some (VSlice [VString ''l'']) \<and>
   fmlookup (snapshot \<lparr>Name = ''e'',
       B = fmupd ''user'' (VString ''u'') (fmupd ''updated'' (VFloat64 9)
             (fmupd ''labels'' (VSlice [VString ''l'']) (fmupd ''flag'' (VBool True)
               (fmupd ''snapshots'' (VSlice []) fmempty))))\<rparr>) ''flag'' = None"
proof -
  let ?b = "\<lparr>Name = ''e'',
       B = fmupd ''user'' (VString ''u'') (fmupd ''updated'' (VFloat64 9)
             (fmupd ''labels'' (VSlice [VString ''l'']) (fmupd ''flag'' (VBool True)
               (fmupd ''snapshots'' (VSlice []) fmempty))))\<rparr>"
  show ?thesis
    using snapshot_copies_by_dynamic_type [of ?b "''user''"]
      snapshot_copies_by_dynamic_type [of ?b "''labels''"]
      snapshot_copies_by_dynamic_type [of ?b "''flag''"]
    by (simp add: key_defs)
qed

text \<open>
  C4 as it is stated fails: a field \<^verbatim>\<open>old\<close> that holds a list of objects is none of
  text, integer and text list, and the copy has it.
\<close>

theorem snapshot_keeps_list_of_any_kind:
  "fmlookup (snapshot \<lparr>Name = ''e'', B = fmupd ''old'' (VSlice [VMap fmempty]) fmempty\<rparr>) ''old''
     = Some (VSlice [VMap fmempty]) \<and>
   \<not> claimedKind (VSlice [VMap fmempty])"
  by (simp add: snapshot_def switchCopies_def claimedKind_def isString_def key_defs)

section \<open>Protected keys\<close>

text \<open>
  C7. On an existing entry, \<^verbatim>\<open>Set\<close> with a key whose lower-cased form is one of
  twofactor, notes, updated, labels, snapshots fails (the panic that names the protected
  key) and leaves the whole store as it was: every field of the entry, \<^verbatim>\<open>updated\<close>
  and the snapshots list included.
\<close>

theorem Set_protected_key_rejected:
  assumes "fmlookup b name = Some (VMap m)"
    and "ToLower key \<in> set protectedKeys"
  shows "Set now b name key str = (Some (PanicProtectedKey (ToLower key)), b)"
  using assms by (simp add: Set_def Get_entry find_protected_Some)

theorem Set_protected_key_rejected_witness:
  "Set 7 (fmupd ''e'' (VMap (fmupd ''notes'' (VSlice [VString ''n'']) fmempty)) fmempty)
       ''e'' ''Notes'' ''x''
     = (Some (PanicProtectedKey ''notes''),
        fmupd ''e'' (VMap (fmupd ''notes'' (VSlice [VString ''n'']) fmempty)) fmempty)"
proof -
  have low: "ToLower ''Notes'' = ''notes''"
    by code_simp
  have prot: "ToLower ''Notes'' \<in> set protectedKeys"
    by code_simp
  have ent:
    "fmlookup (fmupd ''e'' (VMap (fmupd ''notes'' (VSlice [VString ''n'']) fmempty)) fmempty) ''e''
       = Some (VMap (fmupd ''notes'' (VSlice [VString ''n'']) fmempty))"
    by simp
  show ?thesis
    using Set_protected_key_rejected [OF ent prot, of 7 "''x''"] by (simp add: low)
qed

section \<open>Set\<close>

text \<open>
  With a key that is not protected, \<^verbatim>\<open>Set\<close> on an existing entry succeeds. Its last
  statement is \<^verbatim>\<open>blob.B[name] = value\<close>: the text is stored under the name of the
  entry. The field of the lower-cased key, when it differs from the name, keeps what the
  entry held before the call.
\<close>

lemma Set_stores_under_name:
  fixes now :: "64 word" and str :: string
  assumes "fmlookup b name = Some (VMap m)"
    and "ToLower key \<notin> set protectedKeys"
  defines "m' \<equiv> fmupd name (VString str)
                   (B (touchUpdated now (addSnapshot \<lparr>Name = name, B = m\<rparr>)))"
  shows "Set now b name key str = (None, fmupd name (VMap m') b)"
    and "fmlookup m' name = Some (VString str)"
    and "ToLower key \<noteq> name \<Longrightarrow> fmlookup m' (ToLower key) = fmlookup m (ToLower key)"
  using assms
  by (auto simp: Set_success touchUpdated_lookup addSnapshot_lookup protectedKeys_def)

text \<open>
  C1. The entry \<^verbatim>\<open>e\<close> holds the user \<^verbatim>\<open>old\<close>. \<^verbatim>\<open>Set(e, User, a)\<close> succeeds,
  and afterwards the entry holds \<^verbatim>\<open>a\<close> under \<^verbatim>\<open>e\<close>, not under \<^verbatim>\<open>user\<close>:
  the user still reads \<^verbatim>\<open>old\<close>.
\<close>

theorem Set_writes_under_entry_name:
  "(case Set 7 (fmupd ''e'' (VMap (fmupd ''user'' (VString ''old'') fmempty)) fmempty)
           ''e'' ''User'' ''a'' of
      (err, b') \<Rightarrow>
        err = None \<and>
        (case Get b' ''e'' of
           Inl e \<Rightarrow> False
         | Inr blob \<Rightarrow>
             User blob = Inr ''old'' \<and>
             fmlookup (B blob) ''user'' = Some (VString ''old'') \<and>
             fmlookup (B blob) ''e'' = Some (VString ''a'')))"
  by code_simp

text \<open>
  On an entry whose name is neither \<^verbatim>\<open>snapshots\<close> nor \<^verbatim>\<open>updated\<close>, a successful
  \<^verbatim>\<open>Set\<close> sets \<^verbatim>\<open>updated\<close>, makes the history one longer, and its newest snapshot
  is the copy of the fields as they were before the call.
\<close>

lemma Set_history_grows:
  fixes now :: "64 word" and str :: string
  assumes "fmlookup b name = Some (VMap m)"
    and "ToLower key \<notin> set protectedKeys"
    and "name \<noteq> keySnapshots" and "name \<noteq> keyUpdated"
    and "NSnapshots \<lparr>Name = name, B = m\<rparr> = Inr n"
  defines "m' \<equiv> fmupd name (VString str)
                   (B (touchUpdated now (addSnapshot \<lparr>Name = name, B = m\<rparr>)))"
  shows "Set now b name key str = (None, fmupd name (VMap m') b)"
    and "fmlookup m' keyUpdated = Some (VInt64 now)"
    and "NSnapshots \<lparr>Name = name, B = m'\<rparr> = Inr (n + 1)"
    and "Snapshot \<lparr>Name = name, B = m'\<rparr> 0 =
           Inr \<lparr>Name = name @ '':snap'' @ showNat (nat n), B = snapshot \<lparr>Name = name, B = m\<rparr>\<rparr>"
  using assms
  by (auto simp: Set_success touchUpdated_lookup addSnapshot_lookup NSnapshots_def Snapshot_def
      key_defs nth_append split: option.splits val.splits)

text \<open>
  C3. The entry \<^verbatim>\<open>e\<close> has no field. After \<^verbatim>\<open>Set(e, user, a)\<close> and
  \<^verbatim>\<open>Set(e, user, b)\<close> it has two snapshots, and the newest one is the state before the
  second call; but in that state the user reads the empty string, since the first call
  stored \<^verbatim>\<open>a\<close> under \<^verbatim>\<open>e\<close>.
\<close>

theorem Set_twice_history:
  "(case Set 5 (fmupd ''e'' (VMap fmempty) fmempty) ''e'' ''user'' ''a'' of
      (err1, b1) \<Rightarrow>
        (case Set 6 b1 ''e'' ''user'' ''b'' of
           (err2, b2) \<Rightarrow>
             err1 = None \<and> err2 = None \<and>
             (case Get b2 ''e'' of
                Inl e \<Rightarrow> False
              | Inr blob \<Rightarrow>
                  NSnapshots blob = Inr 2 \<and>
                  (case Snapshot blob 0 of
                     Inl e \<Rightarrow> False
                   | Inr snap \<Rightarrow>
                       User snap = Inr '''' \<and>
                       fmlookup (B snap) ''user'' = None \<and>
                       fmlookup (B snap) ''e'' = Some (VString ''a'')))))"
  by code_simp

section \<open>SetLabels and SetNotes\<close>

text \<open>
  \<^verbatim>\<open>SetLabels\<close> and \<^verbatim>\<open>SetNotes\<close> on an existing entry replace their field, set
  \<^verbatim>\<open>updated\<close>, leave every other field and so the number of snapshots as they were.
\<close>

lemma SetLabels_frame:
  fixes now :: "64 word" and labels :: "string list"
  assumes "fmlookup b name = Some (VMap m)"
  defines "m' \<equiv> fmupd keyLabels (VSlice (map VString labels)) (fmupd keyUpdated (VInt64 now) m)"
  shows "SetLabels now b name labels = (None, fmupd name (VMap m') b)"
    and "fmlookup m' keyLabels = Some (VSlice (map VString labels))"
    and "Labels \<lparr>Name = name, B = m'\<rparr> = Inr labels"
    and "fmlookup m' keyUpdated = Some (VInt64 now)"
    and "k \<noteq> keyLabels \<Longrightarrow> k \<noteq> keyUpdated \<Longrightarrow> fmlookup m' k = fmlookup m k"
    and "NSnapshots \<lparr>Name = name, B = m'\<rparr> = NSnapshots \<lparr>Name = name, B = m\<rparr>"
  using assms
  by (simp_all add: SetLabels_def Get_entry Let_def touchUpdated_def NSnapshots_def Labels_def
      getSlice_def getSliceLoop_strings key_defs)

lemma SetNotes_frame:
  fixes now :: "64 word" and ns :: "string list"
  assumes "fmlookup b name = Some (VMap m)"
  defines "m' \<equiv> fmupd keyNotes (VSlice (map VString ns)) (fmupd keyUpdated (VInt64 now) m)"
  shows "SetNotes now b name ns = (None, fmupd name (VMap m') b)"
    and "fmlookup m' keyNotes = Some (VSlice (map VString ns))"
    and "Notes \<lparr>Name = name, B = m'\<rparr> = Inr ns"
    and "fmlookup m' keyUpdated = Some (VInt64 now)"
    and "k \<noteq> keyNotes \<Longrightarrow> k \<noteq> keyUpdated \<Longrightarrow> fmlookup m' k = fmlookup m k"
    and "NSnapshots \<lparr>Name = name, B = m'\<rparr> = NSnapshots \<lparr>Name = name, B = m\<rparr>"
  using assms
  by (simp_all add: SetNotes_def Get_entry Let_def touchUpdated_def NSnapshots_def Notes_def
      getSlice_def getSliceLoop_strings key_defs)

text \<open>
  C8. The part of the claim about \<^verbatim>\<open>Set\<close> fails on an entry named
  \<^verbatim>\<open>snapshots\<close> or \<^verbatim>\<open>updated\<close>: \<^verbatim>\<open>Set\<close> stores the text under the name of the
  entry after it has appended the snapshot and set the time. On the entry
  \<^verbatim>\<open>snapshots\<close> the history had no snapshot before and is no list afterwards; on the
  entry \<^verbatim>\<open>updated\<close> the field \<^verbatim>\<open>updated\<close> holds the text and not the time.
\<close>

theorem Set_on_entry_named_snapshots:
  "(case Set 7 (fmupd ''snapshots'' (VMap fmempty) fmempty) ''snapshots'' ''user'' ''a'' of
      (err, b') \<Rightarrow>
        err = None \<and>
        (case Get b' ''snapshots'' of
           Inl e \<Rightarrow> False
         | Inr blob \<Rightarrow>
             NSnapshots \<lparr>Name = ''snapshots'', B = fmempty\<rparr> = Inr 0 \<and>
             NSnapshots blob = Inl ErrSnapshotsFormat \<and>
             fmlookup (B blob) ''snapshots'' = Some (VString ''a''))) \<and>
   (case Set 7 (fmupd ''updated'' (VMap fmempty) fmempty) ''updated'' ''user'' ''a'' of
      (err, b') \<Rightarrow>
        err = None \<and>
        (case Get b' ''updated'' of
           Inl e \<Rightarrow> False
         | Inr blob \<Rightarrow> fmlookup (B blob) ''updated'' = Some (VString ''a'')))"
  by code_simp

section \<open>A history that is not a list\<close>

text \<open>
  When \<^verbatim>\<open>snapshots\<close> holds a value that is no list, \<^verbatim>\<open>addSnapshot\<close> stores the
  list of the one fresh snapshot in its place. \<^verbatim>\<open>SetTwofactor\<close> leaves that list in
  the entry, and so does \<^verbatim>\<open>Set\<close> on an entry that is not named \<^verbatim>\<open>snapshots\<close>.
\<close>

lemma addSnapshot_malformed_history:
  assumes "fmlookup (B blob) keySnapshots = Some v"
    and "\<forall>xs. v \<noteq> VSlice xs"
  shows "fmlookup (B (addSnapshot blob)) keySnapshots = Some (VSlice [VMap (snapshot blob)])"
  using assms by (cases v) (simp_all add: addSnapshot_lookup)

lemma SetTwofactor_malformed_history:
  fixes now :: "64 word"
  assumes "fmlookup b name = Some (VMap m)"
    and "HasPrefix uri ''otpauth://''"
    and "NewKeyFromURL ext uri = Inr key"
    and "fmlookup m keySnapshots = Some v"
    and "\<forall>xs. v \<noteq> VSlice xs"
  defines "m' \<equiv> fmupd keyTwoFactor (VString uri)
                   (B (touchUpdated now (addSnapshot \<lparr>Name = name, B = m\<rparr>)))"
  shows "SetTwofactor ext now b name uri = (None, fmupd name (VMap m') b)"
    and "fmlookup m' keySnapshots = Some (VSlice [VMap (snapshot \<lparr>Name = name, B = m\<rparr>)])"
  using assms addSnapshot_malformed_history [of "\<lparr>Name = name, B = m\<rparr>" v]
  by (simp_all add: SetTwofactor_success touchUpdated_lookup key_defs)

lemma Set_malformed_history:
  fixes now :: "64 word" and str :: string
  assumes "fmlookup b name = Some (VMap m)"
    and "ToLower key \<notin> set protectedKeys"
    and "name \<noteq> keySnapshots"
    and "fmlookup m keySnapshots = Some v"
    and "\<forall>xs. v \<noteq> VSlice xs"
  defines "m' \<equiv> fmupd name (VString str)
                   (B (touchUpdated now (addSnapshot \<lparr>Name = name, B = m\<rparr>)))"
  shows "Set now b name key str = (None, fmupd name (VMap m') b)"
    and "fmlookup m' keySnapshots = Some (VSlice [VMap (snapshot \<lparr>Name = name, B = m\<rparr>)])"
  using assms addSnapshot_malformed_history [of "\<lparr>Name = name, B = m\<rparr>" v]
  by (simp_all add: Set_success touchUpdated_lookup key_defs)

text \<open>
  C9. On the entry named \<^verbatim>\<open>snapshots\<close> whose history is the text \<^verbatim>\<open>junk\<close>,
  \<^verbatim>\<open>Set\<close> does not fail, but what it leaves under \<^verbatim>\<open>snapshots\<close> is the text it
  was given, not the list of the one fresh snapshot.
\<close>

theorem Set_malformed_history_entry_named_snapshots:
  "(case Set 7 (fmupd ''snapshots'' (VMap (fmupd ''snapshots'' (VString ''junk'') fmempty)) fmempty)
           ''snapshots'' ''user'' ''a'' of
      (err, b') \<Rightarrow>
        err = None \<and>
        (case Get b' ''snapshots'' of
           Inl e \<Rightarrow> False
         | Inr blob \<Rightarrow> fmlookup (B blob) ''snapshots'' = Some (VString ''a'')))"
  by code_simp

section \<open>SetTwofactor\<close>

text \<open>
  C2. \<^verbatim>\<open>SetTwofactor\<close> checks only that the URI parses. Given a URI with the scheme
  prefix that the library parses to a key whose type is not \<^verbatim>\<open>totp\<close>, it succeeds
  and stores the URI; \<^verbatim>\<open>TwoFactor\<close> on the entry it leaves then refuses the key.
\<close>

theorem SetTwofactor_accepts_non_totp:
  assumes "fmlookup b name = Some (VMap m)"
    and "HasPrefix uri ''otpauth://''"
    and "NewKeyFromURL ext uri = Inr key"
    and "Type key \<noteq> ''totp''"
  shows "SetTwofactor ext now b name uri =
           (None,
            fmupd name
              (VMap (fmupd keyTwoFactor (VString uri)
                       (B (touchUpdated now (addSnapshot \<lparr>Name = name, B = m\<rparr>))))) b) \<and>
         TwoFactor ext later
           \<lparr>Name = name,
            B = fmupd keyTwoFactor (VString uri)
                  (B (touchUpdated now (addSnapshot \<lparr>Name = name, B = m\<rparr>)))\<rparr>
           = Inl ErrNotTotp"
  using assms by (simp add: SetTwofactor_success TwoFactor_def assertString_def)

theorem SetTwofactor_accepts_non_totp_witness:
  "fst (SetTwofactor
          \<lparr>NewKeyFromURL =
             (\<lambda>u. if u = ''otpauth://hotp/x?secret=JBSWY3DPEHPK3PXP''
                  then Inr \<lparr>Type = ''hotp'', Secret = ''JBSWY3DPEHPK3PXP''\<rparr>
                  else Inl ''unparsed''),
           GenerateCode = (\<lambda>s t. Inl ''no code''),
           PathEscape = (\<lambda>s. s),
           Encode = (\<lambda>kv. concat (map (\<lambda>(k, v). k @ ''='' @ v) kv))\<rparr>
          7 (fmupd ''e'' (VMap fmempty) fmempty) ''e''
          ''otpauth://hotp/x?secret=JBSWY3DPEHPK3PXP'') = None \<and>
   (case Get (snd (SetTwofactor
          \<lparr>NewKeyFromURL =
             (\<lambda>u. if u = ''otpauth://hotp/x?secret=JBSWY3DPEHPK3PXP''
                  then Inr \<lparr>Type = ''hotp'', Secret = ''JBSWY3DPEHPK3PXP''\<rparr>
                  else Inl ''unparsed''),
           GenerateCode = (\<lambda>s t. Inl ''no code''),
           PathEscape = (\<lambda>s. s),
           Encode = (\<lambda>kv. concat (map (\<lambda>(k, v). k @ ''='' @ v) kv))\<rparr>
          7 (fmupd ''e'' (VMap fmempty) fmempty) ''e''
          ''otpauth://hotp/x?secret=JBSWY3DPEHPK3PXP'')) ''e'' of
      Inl e \<Rightarrow> False
    | Inr blob \<Rightarrow>
        fmlookup (B blob) ''twofactor''
          = Some (VString ''otpauth://hotp/x?secret=JBSWY3DPEHPK3PXP''))"
proof -
  let ?uri = "''otpauth://hotp/x?secret=JBSWY3DPEHPK3PXP''"
  let ?key = "\<lparr>Type = ''hotp'', Secret = ''JBSWY3DPEHPK3PXP''\<rparr>"
  let ?ext = "\<lparr>NewKeyFromURL = (\<lambda>u. if u = ?uri then Inr ?key else Inl ''unparsed''),
           GenerateCode = (\<lambda>s t. Inl ''no code''),
           PathEscape = (\<lambda>s. s),
           Encode = (\<lambda>kv. concat (map (\<lambda>(k, v). k @ ''='' @ v) kv))\<rparr>"
  have ent: "fmlookup (fmupd ''e'' (VMap fmempty) fmempty) ''e'' = Some (VMap fmempty)"
    by simp
  have pre: "HasPrefix ?uri ''otpauth://''"
    by (simp add: HasPrefix_def)
  have parse: "NewKeyFromURL ?ext ?uri = Inr ?key"
    by simp
  have ty: "Type ?key \<noteq> ''totp''"
    by simp
  from SetTwofactor_accepts_non_totp [OF ent pre parse ty, of 7 8]
  show ?thesis
    by (simp add: Get_def get_def key_defs)
qed

text \<open>
  \<^verbatim>\<open>SetTwofactor\<close> fails in two ways only: \<^verbatim>\<open>Get\<close> panics, or the library does
  not parse the URI.
\<close>

lemma SetTwofactor_fails_iff:
  "fst (SetTwofactor ext now b name uriOrKey) \<noteq> None \<longleftrightarrow>
     (\<exists>e. Get b name = Inl e) \<or>
     (\<exists>err. NewKeyFromURL ext
              (if HasPrefix uriOrKey ''otpauth://'' then uriOrKey
               else ''otpauth://totp/'' @ PathEscape ext (''upass:'' @ name) @ ''?''
                      @ Encode ext [(''secret'', uriOrKey)]) = Inl err)"
  by (auto simp: SetTwofactor_def Let_def split: sum.splits)

text \<open>
  C5. Whenever \<^verbatim>\<open>SetTwofactor\<close> fails, the store it leaves is the store it was given:
  no snapshot is appended, \<^verbatim>\<open>updated\<close> is not touched and \<^verbatim>\<open>twofactor\<close> is not
  written.
\<close>

theorem SetTwofactor_failure_leaves_store:
  assumes "fst (SetTwofactor ext now b name uriOrKey) \<noteq> None"
  shows "snd (SetTwofactor ext now b name uriOrKey) = b"
  using assms by (auto simp: SetTwofactor_def Let_def split: sum.splits)

theorem SetTwofactor_failure_leaves_store_witness:
  "fst (SetTwofactor
          \<lparr>NewKeyFromURL = (\<lambda>u. Inl ''missing scheme''), GenerateCode = (\<lambda>s t. Inl ''no code''),
           PathEscape = (\<lambda>s. s), Encode = (\<lambda>kv. concat (map (\<lambda>(k, v). k @ ''='' @ v) kv))\<rparr>
          7 (fmupd ''e'' (VMap (fmupd ''user'' (VString ''u'') fmempty)) fmempty) ''e'' ''JBSW'')
     = Some (ErrUriWouldntParse ''missing scheme'') \<and>
   snd (SetTwofactor
          \<lparr>NewKeyFromURL = (\<lambda>u. Inl ''missing scheme''), GenerateCode = (\<lambda>s t. Inl ''no code''),
           PathEscape = (\<lambda>s. s), Encode = (\<lambda>kv. concat (map (\<lambda>(k, v). k @ ''='' @ v) kv))\<rparr>
          7 (fmupd ''e'' (VMap (fmupd ''user'' (VString ''u'') fmempty)) fmempty) ''e'' ''JBSW'')
     = fmupd ''e'' (VMap (fmupd ''user'' (VString ''u'') fmempty)) fmempty"
proof -
  let ?ext = "\<lparr>NewKeyFromURL = (\<lambda>u. Inl ''missing scheme''),
           GenerateCode = (\<lambda>s t. Inl ''no code''),
           PathEscape = (\<lambda>s. s), Encode = (\<lambda>kv. concat (map (\<lambda>(k, v). k @ ''='' @ v) kv))\<rparr>"
  let ?S = "fmupd ''e'' (VMap (fmupd ''user'' (VString ''u'') fmempty)) fmempty"
  have failed:
    "fst (SetTwofactor ?ext 7 ?S ''e'' ''JBSW'') = Some (ErrUriWouldntParse ''missing scheme'')"
    by (simp add: SetTwofactor_def Get_def get_def)
  then have "fst (SetTwofactor ?ext 7 ?S ''e'' ''JBSW'') \<noteq> None"
    by simp
  from SetTwofactor_failure_leaves_store [OF this] failed show ?thesis
    by simp
qed

end
